theory Spec2Isabelle
  imports Main
begin

section \<open>Strings of the program\<close>

text \<open>
  The bot's strings are modelled as \<^typ>\<open>string\<close>, a list of bytes holding the UTF-8
  encoding of the JavaScript string. Every character the program inspects (the separator
  \<open>.\<close>, the letters of the image suffixes) is ASCII, one byte in UTF-8, and no byte of a
  longer UTF-8 sequence is an ASCII byte.
\<close>

text \<open>
  \<open>String.prototype.split(sep)\<close> for a one-character separator: the pieces between the
  occurrences of \<open>sep\<close>, in order. The empty string gives one empty piece.
\<close>

fun js_split :: "char \<Rightarrow> string \<Rightarrow> string list" where
  "js_split sep [] = [[]]"
| "js_split sep (c # cs) =
     (if c = sep then [] # js_split sep cs
      else (case js_split sep cs of [] \<Rightarrow> [[c]] | p # ps \<Rightarrow> (c # p) # ps))"

text \<open>\<open>Array.prototype.pop\<close>, read for its value: the last element, \<open>undefined\<close> (None) on an empty array.\<close>

definition pop :: "'a list \<Rightarrow> 'a option" where
  "pop xs = (if xs = [] then None else Some (last xs))"

text \<open>A string-or-undefined value is falsy when it is \<open>undefined\<close> or the empty string.\<close>

definition falsy :: "string option \<Rightarrow> bool" where
  "falsy v = (case v of None \<Rightarrow> True | Some s \<Rightarrow> s = [])"

text \<open>\<open>v || d\<close> on such a value: the right operand exactly when the left one is falsy.\<close>

definition js_or :: "string option \<Rightarrow> string \<Rightarrow> string" where
  "js_or v d = (case v of None \<Rightarrow> d | Some s \<Rightarrow> if falsy v then d else s)"

text \<open>\<open>String.prototype.endsWith\<close>.\<close>

definition endsWith :: "string \<Rightarrow> string \<Rightarrow> bool" where
  "endsWith s e = (length e \<le> length s \<and> drop (length s - length e) s = e)"

section \<open>The URL resolver\<close>

record gyazoResponse =
  image_id :: string
  url :: string

definition getDirectImageUrl :: "gyazoResponse \<Rightarrow> string" where
  "getDirectImageUrl gyazoResponse =
     (let imageId = image_id gyazoResponse;
          u = url gyazoResponse;
          extension = js_or (pop (js_split CHR ''.'' u)) ''jpg''
      in ''https://i.gyazo.com/'' @ imageId @ ''.'' @ extension)"

text \<open>
  The resolver in the words of the specification's contract: the fixed host prefix, the
  identifier, and the substring of the reference URL after its last \<open>.\<close>.
\<close>

definition after_last_dot :: "string \<Rightarrow> string" where
  "after_last_dot u = rev (takeWhile (\<lambda>c. c \<noteq> CHR ''.'') (rev u))"

definition resolve_by_contract :: "gyazoResponse \<Rightarrow> string" where
  "resolve_by_contract r = ''https://i.gyazo.com/'' @ image_id r @ ''.'' @ after_last_dot (url r)"

section \<open>The world the bot acts on\<close>

datatype error = ReplyError | MkdirError | TransferError | UploadError | EditError | UnlinkError

text \<open>
  How a call or an awaited promise ends: it returns a value, it throws or rejects, or it is
  a promise that never settles, so that what follows the \<open>await\<close> never runs and no
  \<open>catch\<close> block sees anything.
\<close>

datatype 'a completion = Returned 'a | Threw error | NeverSettles

text \<open>
  Every call is a value of \<open>'a completion \<times> world\<close>: how it ended and the world as it
  left it, so that what a call did before failing or stalling stays.
\<close>

text \<open>The requests the bot issues, in the order it issues them.\<close>

datatype action =
    Reply string
  | Edit nat string
  | Mkdir string
  | Download string string
  | Upload string
  | Unlink string

text \<open>
  \<open>posted\<close>: the contents of the bot's own messages in the conversation, in posting order;
  a message's handle is its position. \<open>files\<close>: the paths that exist. \<open>logs\<close>: what
  \<open>console.error\<close> received. \<open>trace\<close>: the requests issued so far.
\<close>

record world =
  posted :: "string list"
  files :: "string set"
  logs :: "(string \<times> error) list"
  trace :: "action list"

definition bind_io ::
  "(world \<Rightarrow> 'a completion \<times> world) \<Rightarrow> ('a \<Rightarrow> world \<Rightarrow> 'b completion \<times> world)
     \<Rightarrow> world \<Rightarrow> 'b completion \<times> world" where
  "bind_io m f w =
     (case m w of
        (Returned a, w') \<Rightarrow> f a w'
      | (Threw e, w') \<Rightarrow> (Threw e, w')
      | (NeverSettles, w') \<Rightarrow> (NeverSettles, w'))"

definition try_catch ::
  "(world \<Rightarrow> 'a completion \<times> world) \<Rightarrow> (error \<Rightarrow> world \<Rightarrow> 'a completion \<times> world)
     \<Rightarrow> world \<Rightarrow> 'a completion \<times> world" where
  "try_catch body handler w =
     (case body w of
        (Returned a, w') \<Rightarrow> (Returned a, w')
      | (Threw e, w') \<Rightarrow> handler e w'
      | (NeverSettles, w') \<Rightarrow> (NeverSettles, w'))"

definition console_error :: "string \<Rightarrow> error \<Rightarrow> world \<Rightarrow> world" where
  "console_error label e w = w\<lparr>logs := logs w @ [(label, e)]\<rparr>"

definition issue :: "action \<Rightarrow> world \<Rightarrow> world" where
  "issue a w = w\<lparr>trace := trace w @ [a]\<rparr>"

text \<open>
  \<open>message.reply(content)\<close>: the platform accepts the reply (\<open>ok\<close>) and it becomes the
  newest message, or the promise rejects and nothing is posted.
\<close>

definition reply :: "bool \<Rightarrow> string \<Rightarrow> world \<Rightarrow> nat completion \<times> world" where
  "reply ok content w =
     (let w1 = issue (Reply content) w
      in if ok then (Returned (length (posted w)), w1\<lparr>posted := posted w @ [content]\<rparr>)
         else (Threw ReplyError, w1))"

text \<open>\<open>processingMsg.edit(content)\<close> on the message with handle \<open>h\<close>.\<close>

definition edit :: "bool \<Rightarrow> nat \<Rightarrow> string \<Rightarrow> world \<Rightarrow> unit completion \<times> world" where
  "edit ok h content w =
     (let w1 = issue (Edit h content) w
      in if ok then (Returned (), w1\<lparr>posted := (posted w)[h := content]\<rparr>)
         else (Threw EditError, w1))"

definition existsSync :: "string \<Rightarrow> world \<Rightarrow> bool" where
  "existsSync p w = (p \<in> files w)"

definition mkdirSync :: "bool \<Rightarrow> string \<Rightarrow> world \<Rightarrow> unit completion \<times> world" where
  "mkdirSync ok p w =
     (let w1 = issue (Mkdir p) w
      in if ok \<and> p \<notin> files w then (Returned (), w1\<lparr>files := insert p (files w)\<rparr>)
         else (Threw MkdirError, w1))"

definition unlinkSync :: "bool \<Rightarrow> string \<Rightarrow> world \<Rightarrow> unit completion \<times> world" where
  "unlinkSync ok p w =
     (let w1 = issue (Unlink p) w
      in if ok \<and> p \<in> files w then (Returned (), w1\<lparr>files := files w - {p}\<rparr>)
         else (Threw UnlinkError, w1))"

section \<open>The helpers of the pipeline\<close>

text \<open>
  How a download ends. The promise of \<open>downloadImage\<close> settles only on the write
  stream's \<open>finish\<close> or \<open>error\<close>, and nothing listens on the response stream. So: the
  whole stream is written (\<open>Fetched\<close>); the request fails before the file is opened
  (\<open>FetchFailed\<close>); the write stream reports an error, with or without a partial file left
  (\<open>WriteFailed\<close>); or the response stream is cut in the middle of the body, the write
  stream is neither ended nor failed, a partial file stays and the promise never settles
  (\<open>Stalled\<close>).
\<close>

datatype transfer = Fetched | FetchFailed | WriteFailed bool | Stalled

definition downloadImage ::
  "transfer \<Rightarrow> string \<Rightarrow> string \<Rightarrow> world \<Rightarrow> unit completion \<times> world" where
  "downloadImage outcome u filename w =
     (let w1 = issue (Download u filename) w
      in case outcome of
           Fetched \<Rightarrow> (Returned (), w1\<lparr>files := insert filename (files w)\<rparr>)
         | FetchFailed \<Rightarrow> (Threw TransferError, w1)
         | WriteFailed partial \<Rightarrow>
             (Threw TransferError,
              if partial then w1\<lparr>files := insert filename (files w)\<rparr> else w1)
         | Stalled \<Rightarrow> (NeverSettles, w1\<lparr>files := insert filename (files w)\<rparr>))"

text \<open>\<open>uploadToGyazo\<close>: the parsed response, or the error logged and thrown again.\<close>

definition uploadToGyazo ::
  "gyazoResponse option \<Rightarrow> string \<Rightarrow> world \<Rightarrow> gyazoResponse completion \<times> world" where
  "uploadToGyazo outcome imagePath w =
     (let w1 = issue (Upload imagePath) w
      in case outcome of
           Some response \<Rightarrow> (Returned response, w1)
         | None \<Rightarrow> (Threw UploadError, console_error ''Error uploading to Gyazo:'' UploadError w1))"

definition cleanupFile :: "bool \<Rightarrow> string \<Rightarrow> world \<Rightarrow> unit completion \<times> world" where
  "cleanupFile ok filepath =
     try_catch
       (\<lambda>w. if existsSync filepath w then unlinkSync ok filepath w else (Returned (), w))
       (\<lambda>e w. (Returned (), console_error ''Error cleaning up file:'' e w))"

section \<open>The message handler\<close>

record config =
  token :: string
  gyazoToken :: string
  channelId :: string

record attachment =
  name :: string
  att_url :: string

record message =
  author_bot :: bool
  channel_id :: string
  attachments :: "attachment list"

text \<open>
  What the outside answers during the run of one attachment: the clock, and for each
  request whether it goes through.
\<close>

record outcome =
  now :: nat
  announce_ok :: bool
  mkdir_ok :: bool
  download :: transfer
  upload :: "gyazoResponse option"
  edit_ok :: bool
  unlink_ok :: bool
  notice_ok :: bool

definition lower_char :: "char \<Rightarrow> char" where
  "lower_char c =
     (case map_of (zip ''ABCDEFGHIJKLMNOPQRSTUVWXYZ'' ''abcdefghijklmnopqrstuvwxyz'') c of
        None \<Rightarrow> c | Some d \<Rightarrow> d)"

text \<open>
  \<open>String.prototype.toLowerCase\<close> on the bytes of the name. Outside ASCII JavaScript
  lowers further letters, but the only ASCII letters it can produce from them are \<open>k\<close>
  (from the Kelvin sign) and an \<open>i\<close> followed by a combining dot, and neither can complete
  one of the six suffixes below, so the test on the lowered name is the same.
\<close>

definition toLowerCase :: "string \<Rightarrow> string" where
  "toLowerCase s = map lower_char s"

definition imageExtensions :: "string list" where
  "imageExtensions = [''.jpg'', ''.jpeg'', ''.png'', ''.gif'', ''.webp'', ''.bmp'']"

definition isImage :: "attachment \<Rightarrow> bool" where
  "isImage attachment =
     list_ex (\<lambda>ext. endsWith (toLowerCase (name attachment)) ext) imageExtensions"

definition pending_text :: string where
  "pending_text = [CHR 0xF0, CHR 0x9F, CHR 0x94, CHR 0x84] @ '' Uploading image to Gyazo...''"

definition failure_text :: string where
  "failure_text =
     [CHR 0xE2, CHR 0x9D, CHR 0x8C] @ '' Failed to upload image to Gyazo. Please try again later.''"

definition tempDir :: string where
  "tempDir = ''./temp''"

text \<open>A number in a template literal: its decimal digits.\<close>

fun decimal :: "nat \<Rightarrow> string" where
  "decimal n =
     (if n < 10 then [''0123456789'' ! n]
      else decimal (n div 10) @ [''0123456789'' ! (n mod 10)])"

declare decimal.simps [simp del]

text \<open>
  \<open>path.join(dir, file)\<close> for a file name without separators or dot segments, as the
  platform's attachment names are: the normalised directory, a \<open>/\<close>, the file name.
\<close>

definition path_join :: "string \<Rightarrow> string \<Rightarrow> string" where
  "path_join dir file = (if take 2 dir = ''./'' then drop 2 dir else dir) @ ''/'' @ file"

definition tempFilename :: "outcome \<Rightarrow> attachment \<Rightarrow> string" where
  "tempFilename env attachment =
     path_join tempDir (''temp_'' @ decimal (now env) @ ''_'' @ name attachment)"

definition code_block :: "string \<Rightarrow> string" where
  "code_block directUrl = ''```'' @ directUrl @ ''```''"

text \<open>The \<open>try\<close> block of the loop body.\<close>

definition attempt :: "outcome \<Rightarrow> attachment \<Rightarrow> world \<Rightarrow> unit completion \<times> world" where
  "attempt env attachment =
     bind_io (reply (announce_ok env) pending_text) (\<lambda>processingMsg.
     bind_io (\<lambda>w. if \<not> existsSync tempDir w then mkdirSync (mkdir_ok env) tempDir w
                   else (Returned (), w)) (\<lambda>_.
     bind_io (downloadImage (download env) (att_url attachment) (tempFilename env attachment)) (\<lambda>_.
     bind_io (uploadToGyazo (upload env) (tempFilename env attachment)) (\<lambda>gyazoResponse.
     bind_io (edit (edit_ok env) processingMsg (code_block (getDirectImageUrl gyazoResponse))) (\<lambda>_.
     cleanupFile (unlink_ok env) (tempFilename env attachment))))))"

text \<open>The \<open>catch\<close> block: log, then post the failure notice; a rejection here is not caught.\<close>

definition on_error :: "outcome \<Rightarrow> error \<Rightarrow> world \<Rightarrow> unit completion \<times> world" where
  "on_error env e =
     bind_io (\<lambda>w. reply (notice_ok env) failure_text (console_error ''Error processing image:'' e w))
       (\<lambda>_ w. (Returned (), w))"

text \<open>One turn of the loop over the attachments.\<close>

definition loop_body :: "outcome \<Rightarrow> attachment \<Rightarrow> world \<Rightarrow> unit completion \<times> world" where
  "loop_body env attachment w =
     (if \<not> isImage attachment then (Returned (), w)
      else try_catch (attempt env attachment) (on_error env) w)"

text \<open>
  The loop; \<open>env i\<close> is what the outside answers during the turn of the attachment at
  position \<open>i\<close>. An error that leaves a turn leaves the handler, and a turn that never
  settles keeps the handler from ever reaching the next attachment.
\<close>

fun process_attachments ::
  "(nat \<Rightarrow> outcome) \<Rightarrow> nat \<Rightarrow> attachment list \<Rightarrow> world \<Rightarrow> unit completion \<times> world" where
  "process_attachments env i [] w = (Returned (), w)"
| "process_attachments env i (a # as) w =
     (case loop_body (env i) a w of
        (Returned _, w') \<Rightarrow> process_attachments env (Suc i) as w'
      | (Threw e, w') \<Rightarrow> (Threw e, w')
      | (NeverSettles, w') \<Rightarrow> (NeverSettles, w'))"

definition messageCreate ::
  "config \<Rightarrow> (nat \<Rightarrow> outcome) \<Rightarrow> message \<Rightarrow> world \<Rightarrow> unit completion \<times> world" where
  "messageCreate cfg env msg w =
     (if author_bot msg then (Returned (), w)
      else if channelId cfg \<noteq> [] \<and> channel_id msg \<noteq> channelId cfg then (Returned (), w)
      else if length (attachments msg) = 0 then (Returned (), w)
      else process_attachments env 0 (attachments msg) w)"

section \<open>Notions the claims speak of\<close>

text \<open>
  A name ends with a suffix, compared without regard to case: some final part of the name
  and the suffix are the same once both are lowered.
\<close>

definition ends_with_ci :: "string \<Rightarrow> string \<Rightarrow> bool" where
  "ends_with_ci n ext = (\<exists>pre suf. n = pre @ suf \<and> toLowerCase suf = toLowerCase ext)"

text \<open>The number of pending-status replies requested so far: one opens each run.\<close>

definition announcements :: "world \<Rightarrow> nat" where
  "announcements w = length (filter (\<lambda>x. x = Reply pending_text) (trace w))"

section \<open>Scenarios\<close>

definition world0 :: world where
  "world0 = \<lparr>posted = [], files = {}, logs = [], trace = []\<rparr>"

definition cfg0 :: config where
  "cfg0 = \<lparr>token = ''discord-token'', gyazoToken = ''gyazo-token'', channelId = ''''\<rparr>"

definition cat_png :: attachment where
  "cat_png = \<lparr>name = ''cat.png'', att_url = ''https://cdn.example/cat.png''\<rparr>"

definition dog_jpg :: attachment where
  "dog_jpg = \<lparr>name = ''Dog.JPG'', att_url = ''https://cdn.example/Dog.JPG''\<rparr>"

definition notes_txt :: attachment where
  "notes_txt = \<lparr>name = ''notes.txt'', att_url = ''https://cdn.example/notes.txt''\<rparr>"

definition xyz_response :: gyazoResponse where
  "xyz_response = \<lparr>image_id = ''xyz'', url = ''https://gyazo.com/xyz.png''\<rparr>"

text \<open>Everything goes through; the hosting API answers as in the specification's scenario A.\<close>

definition all_ok :: outcome where
  "all_ok = \<lparr>now = 1700000000000, announce_ok = True, mkdir_ok = True, download = Fetched,
     upload = Some xyz_response, edit_ok = True, unlink_ok = True, notice_ok = True\<rparr>"

definition from_human :: "attachment list \<Rightarrow> message" where
  "from_human atts = \<lparr>author_bot = False, channel_id = ''general'', attachments = atts\<rparr>"

text \<open>The hosting API answers with an error, as in the specification's scenario B.\<close>

definition upload_fails :: outcome where
  "upload_fails = all_ok\<lparr>upload := None\<rparr>"

text \<open>Transfer and upload go through, but the platform rejects the edit of the pending reply.\<close>

definition edit_rejected :: outcome where
  "edit_rejected = all_ok\<lparr>edit_ok := False\<rparr>"

text \<open>The deletion of the staging file fails.\<close>

definition unlink_fails :: outcome where
  "unlink_fails = all_ok\<lparr>unlink_ok := False\<rparr>"

text \<open>
  During the first attachment's turn the download fails and the platform rejects the
  failure notice; everything goes through afterwards.
\<close>

definition notice_rejected_after_failed_fetch :: "nat \<Rightarrow> outcome" where
  "notice_rejected_after_failed_fetch i =
     (if i = 0 then all_ok\<lparr>download := FetchFailed, notice_ok := False\<rparr> else all_ok)"

text \<open>
  During the first attachment's turn the response stream of the download is cut in the
  middle of the body; every reply would be accepted.
\<close>

definition first_download_stalls :: "nat \<Rightarrow> outcome" where
  "first_download_stalls i = (if i = 0 then all_ok\<lparr>download := Stalled\<rparr> else all_ok)"

text \<open>The hosting API fails during the first attachment's turn only.\<close>

definition first_upload_fails :: "nat \<Rightarrow> outcome" where
  "first_upload_fails i = (if i = 0 then upload_fails else all_ok)"

section \<open>Facts about splitting\<close>

lemma js_split_nonempty: "js_split sep u \<noteq> []"
  by (induction u) (auto split: list.splits)

lemma js_split_no_sep: "sep \<notin> set u \<Longrightarrow> js_split sep u = [u]"
  by (induction u) auto

lemma last_js_split_Cons:
  "last (js_split sep (c # cs)) =
     (if sep \<in> set cs then last (js_split sep cs) else if c = sep then cs else c # cs)"
proof (cases "sep \<in> set cs")
  case False
  then show ?thesis by (simp add: js_split_no_sep)
next
  case True
  obtain p ps where ps: "js_split sep cs = p # ps"
    using js_split_nonempty [of sep cs] by (cases "js_split sep cs") auto
  have "ps \<noteq> []"
  proof
    assume "ps = []"
    with ps have one: "js_split sep cs = [p]" by simp
    have "\<And>q. js_split sep cs = [q] \<Longrightarrow> sep \<notin> set cs"
    proof (induction cs)
      case Nil
      then show ?case by simp
    next
      case (Cons d ds)
      show ?case
      proof (cases "d = sep")
        case True
        with Cons.prems js_split_nonempty [of sep ds] show ?thesis by simp
      next
        case False
        obtain r rs where rs: "js_split sep ds = r # rs"
          using js_split_nonempty [of sep ds] by (cases "js_split sep ds") auto
        with Cons.prems False have "rs = []" by simp
        with rs Cons.IH have "sep \<notin> set ds" by simp
        with False show ?thesis by simp
      qed
    qed
    with one True show False by blast
  qed
  with ps True show ?thesis by (simp add: js_split_nonempty)
qed

lemma last_js_split_append:
  "sep \<notin> set ext \<Longrightarrow> last (js_split sep (pre @ sep # ext)) = ext"
  by (induction pre) (simp_all only: append_Nil append_Cons last_js_split_Cons, auto)

lemma last_js_split_after_last_dot:
  "last (js_split CHR ''.'' u) = after_last_dot u"
proof (cases "CHR ''.'' \<in> set u")
  case False
  then have tw: "takeWhile (\<lambda>c. c \<noteq> CHR ''.'') (rev u) = rev u"
    by (intro takeWhile_eq_all_conv [THEN iffD2]) auto
  show ?thesis
    unfolding after_last_dot_def tw using False by (simp add: js_split_no_sep)
next
  case True
  then obtain pre ext where u: "u = pre @ CHR ''.'' # ext" and ext: "CHR ''.'' \<notin> set ext"
    using split_list_last [of "CHR ''.''" u] by blast
  have tw: "takeWhile (\<lambda>c. c \<noteq> CHR ''.'') (rev ext @ CHR ''.'' # rev pre) = rev ext"
    using ext by (subst takeWhile_append2) auto
  have "rev u = rev ext @ CHR ''.'' # rev pre"
    using u by simp
  then have "after_last_dot u = ext"
    unfolding after_last_dot_def using tw by (simp only: rev_rev_ident)
  moreover have "last (js_split CHR ''.'' u) = ext"
    unfolding u using ext by (rule last_js_split_append)
  ultimately show ?thesis by simp
qed

lemma pop_js_split: "pop (js_split CHR ''.'' u) = Some (after_last_dot u)"
  by (simp add: pop_def js_split_nonempty last_js_split_after_last_dot)

lemma after_last_dot_empty_iff:
  "after_last_dot u = [] \<longleftrightarrow> u = [] \<or> endsWith u ''.''"
proof (cases u rule: rev_cases)
  case Nil
  then show ?thesis by (simp add: after_last_dot_def)
next
  case (snoc ys y)
  then show ?thesis by (auto simp: after_last_dot_def endsWith_def)
qed

section \<open>Facts about the handler\<close>

lemma cleanupFile_cases:
  "cleanupFile ok p w =
     (if p \<notin> files w then (Returned (), w)
      else if ok then (Returned (), (issue (Unlink p) w)\<lparr>files := files w - {p}\<rparr>)
      else (Returned (), console_error ''Error cleaning up file:'' UnlinkError (issue (Unlink p) w)))"
  by (simp add: cleanupFile_def try_catch_def existsSync_def unlinkSync_def Let_def)

lemmas io_defs = bind_io_def try_catch_def reply_def edit_def existsSync_def mkdirSync_def
  downloadImage_def uploadToGyazo_def cleanupFile_cases issue_def console_error_def

lemmas scenario_defs = world0_def cfg0_def cat_png_def dog_jpg_def notes_txt_def xyz_response_def
  all_ok_def from_human_def upload_fails_def edit_rejected_def unlink_fails_def
  notice_rejected_after_failed_fetch_def first_upload_fails_def first_download_stalls_def

lemmas eval_defs = messageCreate_def loop_body_def attempt_def on_error_def io_defs Let_def
  isImage_def imageExtensions_def endsWith_def toLowerCase_def lower_char_def
  tempFilename_def path_join_def tempDir_def decimal.simps code_block_def
  getDirectImageUrl_def pop_def js_or_def falsy_def

lemma endsWith_iff: "endsWith s e \<longleftrightarrow> (\<exists>pre. s = pre @ e)"
proof
  assume "endsWith s e"
  then have "s = take (length s - length e) s @ e"
    by (metis append_take_drop_id endsWith_def)
  then show "\<exists>pre. s = pre @ e" ..
next
  assume "\<exists>pre. s = pre @ e"
  then show "endsWith s e" by (auto simp: endsWith_def)
qed

lemma endsWith_lowered:
  "toLowerCase ext = ext \<Longrightarrow> endsWith (toLowerCase n) ext \<longleftrightarrow> ends_with_ci n ext"
  by (auto simp: endsWith_iff ends_with_ci_def toLowerCase_def map_eq_append_conv)

lemma extensions_lowered: "\<forall>ext \<in> set imageExtensions. toLowerCase ext = ext"
  by (simp add: imageExtensions_def toLowerCase_def lower_char_def)

lemma isImage_iff:
  "isImage a \<longleftrightarrow> (\<exists>ext \<in> set imageExtensions. ends_with_ci (name a) ext)"
  using extensions_lowered by (auto simp: isImage_def list_ex_iff endsWith_lowered)

lemma attempt_announces:
  "\<exists>rest. trace (snd (attempt env a w)) = trace w @ Reply pending_text # rest"
  by (simp add: attempt_def io_defs Let_def split: transfer.split option.split)

lemma on_error_extends:
  "\<exists>rest. trace (snd (on_error env e w)) = trace w @ rest"
  by (simp add: on_error_def io_defs Let_def)

lemma loop_body_announces:
  assumes img: "isImage a"
  shows "\<exists>rest. trace (snd (loop_body env a w)) = trace w @ Reply pending_text # rest"
proof -
  obtain r w1 where att: "attempt env a w = (r, w1)" by (cases "attempt env a w")
  from attempt_announces [of env a w] att obtain rest
    where t1: "trace w1 = trace w @ Reply pending_text # rest" by auto
  show ?thesis
  proof (cases r)
    case (Returned u)
    with img att t1 show ?thesis by (simp add: loop_body_def try_catch_def)
  next
    case (Threw e)
    from on_error_extends [of env e w1] obtain rest'
      where "trace (snd (on_error env e w1)) = trace w1 @ rest'" by auto
    with img att t1 Threw show ?thesis by (simp add: loop_body_def try_catch_def)
  next
    case NeverSettles
    with img att t1 show ?thesis by (simp add: loop_body_def try_catch_def)
  qed
qed

lemma loop_body_continues:
  "notice_ok env \<Longrightarrow> download env \<noteq> Stalled \<Longrightarrow> fst (loop_body env a w) = Returned ()"
  by (cases "download env")
    (auto simp: loop_body_def attempt_def on_error_def io_defs Let_def split: option.split)

lemma texts_differ: "failure_text \<noteq> pending_text"
  by (simp add: failure_text_def pending_text_def)

lemma loop_body_announcements:
  "notice_ok env \<Longrightarrow> download env \<noteq> Stalled \<Longrightarrow>
     announcements (snd (loop_body env a w)) = announcements w + (if isImage a then 1 else 0)"
  using texts_differ
  by (cases "download env")
    (auto simp: announcements_def loop_body_def attempt_def on_error_def io_defs Let_def
      split: option.split)

lemma process_attachments_all:
  "\<forall>i < length atts. notice_ok (env (k + i)) \<and> download (env (k + i)) \<noteq> Stalled \<Longrightarrow>
     fst (process_attachments env k atts w) = Returned ()
     \<and> announcements (snd (process_attachments env k atts w))
         = announcements w + length (filter isImage atts)"
proof (induction atts arbitrary: k w)
  case Nil
  then show ?case by simp
next
  case (Cons a as)
  from Cons.prems have n0: "notice_ok (env k)" and d0: "download (env k) \<noteq> Stalled"
    by force+
  obtain w1 where step: "loop_body (env k) a w = (Returned (), w1)"
    using loop_body_continues [OF n0 d0, of a w] by (cases "loop_body (env k) a w") auto
  have a1: "announcements w1 = announcements w + (if isImage a then 1 else 0)"
    using loop_body_announcements [OF n0 d0, of a w] step by simp
  have "\<forall>i < length as. notice_ok (env (Suc k + i)) \<and> download (env (Suc k + i)) \<noteq> Stalled"
    using Cons.prems by force
  from Cons.IH [OF this, of w1] step a1 show ?case by simp
qed

section \<open>Claims about the resolver\<close>

text \<open>
  C1 (the code departs from the claim): a reference URL without any \<open>.\<close> is claimed to
  resolve with the default extension \<open>jpg\<close>. On the claim's own example, whose URL
  \<open>https://x/y\<close> has no \<open>.\<close>, the resolver does not apply the default: the only piece of
  the split is the whole URL, it is not empty, and it is used as the extension.
\<close>

theorem C1_no_dot_example_not_defaulted:
  "CHR ''.'' \<notin> set ''https://x/y''
   \<and> getDirectImageUrl \<lparr>image_id = ''abc123'', url = ''https://x/y''\<rparr>
       = ''https://i.gyazo.com/abc123.https://x/y''
   \<and> getDirectImageUrl \<lparr>image_id = ''abc123'', url = ''https://x/y''\<rparr>
       \<noteq> ''https://i.gyazo.com/abc123.jpg''"
  by (simp add: getDirectImageUrl_def pop_def js_or_def falsy_def)

text \<open>
  C5 as stated: the resolver returns the host prefix, the identifier and the substring of
  the reference URL after its last \<open>.\<close>. This fails for a URL that ends with \<open>.\<close>: the
  substring is empty and the resolver puts \<open>jpg\<close> in its place.
\<close>

theorem C5_counterexample:
  "getDirectImageUrl \<lparr>image_id = ''abc123'', url = ''https://x/y.''\<rparr>
     \<noteq> resolve_by_contract \<lparr>image_id = ''abc123'', url = ''https://x/y.''\<rparr>"
  by (simp add: getDirectImageUrl_def pop_def js_or_def falsy_def resolve_by_contract_def
      after_last_dot_def)

text \<open>
  C5 amended: the resolver is a total function to strings, and its result is always the
  host prefix, the identifier, a \<open>.\<close> and a non-empty extension. For a reference URL that
  contains a \<open>.\<close> the extension is the substring after the last \<open>.\<close>, or \<open>jpg\<close> when that
  substring is empty. In particular \<open>{image_id: "abc123", url: "https://x/y.png"}\<close>
  resolves to \<open>https://i.gyazo.com/abc123.png\<close>.
\<close>

theorem C5_resolver_amended:
  "(\<exists>ext. ext \<noteq> [] \<and> getDirectImageUrl r = ''https://i.gyazo.com/'' @ image_id r @ ''.'' @ ext)
   \<and> (CHR ''.'' \<in> set (url r) \<longrightarrow>
        getDirectImageUrl r =
          ''https://i.gyazo.com/'' @ image_id r @ ''.'' @
            (if after_last_dot (url r) = [] then ''jpg'' else after_last_dot (url r)))
   \<and> getDirectImageUrl \<lparr>image_id = ''abc123'', url = ''https://x/y.png''\<rparr>
       = ''https://i.gyazo.com/abc123.png''"
proof (intro conjI impI)
  show built: "getDirectImageUrl r =
          ''https://i.gyazo.com/'' @ image_id r @ ''.'' @
            (if after_last_dot (url r) = [] then ''jpg'' else after_last_dot (url r))"
    by (simp add: getDirectImageUrl_def pop_js_split js_or_def falsy_def)
  show "\<exists>ext. ext \<noteq> [] \<and> getDirectImageUrl r = ''https://i.gyazo.com/'' @ image_id r @ ''.'' @ ext"
    by (rule exI [of _ "if after_last_dot (url r) = [] then ''jpg'' else after_last_dot (url r)"])
      (simp add: built)
next
  show "getDirectImageUrl \<lparr>image_id = ''abc123'', url = ''https://x/y.png''\<rparr>
       = ''https://i.gyazo.com/abc123.png''"
    by (simp add: getDirectImageUrl_def pop_def js_or_def falsy_def)
qed

theorem C5_witness:
  "CHR ''.'' \<in> set ''https://x/y.png''
   \<and> after_last_dot ''https://x/y.png'' = ''png''
   \<and> getDirectImageUrl \<lparr>image_id = ''abc123'', url = ''https://x/y.png''\<rparr>
       = ''https://i.gyazo.com/abc123.png''"
  using C5_resolver_amended [of "\<lparr>image_id = ''abc123'', url = ''https://x/y.png''\<rparr>"]
  by (simp add: after_last_dot_def)

text \<open>
  C10: the \<open>jpg\<close> default is applied exactly when the reference URL is empty or ends with
  \<open>.\<close>. The left operand of \<open>||\<close>, the piece popped from the split, is falsy in those
  cases and in no other. For every such URL the resolver returns \<open>https://i.gyazo.com/\<close>,
  the identifier and \<open>.jpg\<close>; for every other URL the popped piece is not empty and the
  resolver uses it, not the default, as the extension.
\<close>

theorem C10_default_exactly_when_empty_or_trailing_dot:
  "(falsy (pop (js_split CHR ''.'' u)) \<longleftrightarrow> u = [] \<or> endsWith u ''.'')
   \<and> (u = [] \<or> endsWith u ''.'' \<longrightarrow>
        getDirectImageUrl \<lparr>image_id = i, url = u\<rparr> = ''https://i.gyazo.com/'' @ i @ ''.jpg'')
   \<and> (u \<noteq> [] \<and> \<not> endsWith u ''.'' \<longrightarrow>
        pop (js_split CHR ''.'' u) = Some (after_last_dot u)
        \<and> after_last_dot u \<noteq> []
        \<and> getDirectImageUrl \<lparr>image_id = i, url = u\<rparr>
            = ''https://i.gyazo.com/'' @ i @ ''.'' @ after_last_dot u)"
  by (simp add: getDirectImageUrl_def pop_js_split js_or_def falsy_def after_last_dot_empty_iff)

theorem C10_witness:
  "(falsy (pop (js_split CHR ''.'' ''https://x/y.'')) \<longleftrightarrow> True)
   \<and> endsWith ''https://x/y.'' ''.''
   \<and> getDirectImageUrl \<lparr>image_id = ''abc123'', url = ''https://x/y.''\<rparr>
       = ''https://i.gyazo.com/abc123.jpg''
   \<and> getDirectImageUrl \<lparr>image_id = ''abc123'', url = ''''\<rparr>
       = ''https://i.gyazo.com/abc123.jpg''
   \<and> ''https://x/y.png'' \<noteq> [] \<and> \<not> endsWith ''https://x/y.png'' ''.''
   \<and> \<not> falsy (pop (js_split CHR ''.'' ''https://x/y.png''))
   \<and> pop (js_split CHR ''.'' ''https://x/y.png'') = Some ''png''
   \<and> getDirectImageUrl \<lparr>image_id = ''abc123'', url = ''https://x/y.png''\<rparr>
       = ''https://i.gyazo.com/abc123.png''"
proof -
  have tail: "after_last_dot ''https://x/y.png'' = ''png''"
    by (simp add: after_last_dot_def)
  have dot: "endsWith ''https://x/y.'' ''.''" and nodot: "\<not> endsWith ''https://x/y.png'' ''.''"
    by (simp_all add: endsWith_def)
  from C10_default_exactly_when_empty_or_trailing_dot [of "''https://x/y.''" "''abc123''"]
    C10_default_exactly_when_empty_or_trailing_dot [of "''''" "''abc123''"]
    C10_default_exactly_when_empty_or_trailing_dot [of "''https://x/y.png''" "''abc123''"]
    tail dot nodot
  show ?thesis by (simp add: pop_def falsy_def)
qed

section \<open>Claims about cleanup\<close>

text \<open>
  C9: \<open>cleanupFile\<close> never raises, whatever the path, the world and the fate of the
  deletion, and it never touches the conversation. On a path \<open>p\<close> that does not exist it
  returns normally and changes nothing, so a second call on an already deleted path, and
  the one after it, succeed silently. A failed deletion of an existing path \<open>q\<close> is logged
  and the call still returns normally. A run whose steps before cleanup all went through
  leaves its \<open>try\<close> block normally whether or not the deletion fails.
\<close>

theorem C9_cleanup_never_raises:
  "fst (cleanupFile ok p w) = Returned ()
   \<and> posted (snd (cleanupFile ok p w)) = posted w
   \<and> (p \<notin> files w \<longrightarrow>
        cleanupFile ok p w = (Returned (), w)
        \<and> cleanupFile ok' p (snd (cleanupFile ok p w)) = (Returned (), w))
   \<and> (q \<in> files w \<longrightarrow>
        cleanupFile False q w =
          (Returned (), console_error ''Error cleaning up file:'' UnlinkError (issue (Unlink q) w)))
   \<and> (announce_ok env \<and> (tempDir \<in> files w \<or> mkdir_ok env) \<and> download env = Fetched
        \<and> upload env \<noteq> None \<and> edit_ok env \<longrightarrow>
        fst (attempt env a w) = Returned ())"
proof -
  have never: "fst (cleanupFile ok p w) = Returned ()"
    by (simp add: cleanupFile_cases)
  have quiet: "posted (snd (cleanupFile ok p w)) = posted w"
    by (simp add: cleanupFile_cases issue_def console_error_def)
  have twice: "cleanupFile ok p w = (Returned (), w)
      \<and> cleanupFile ok' p (snd (cleanupFile ok p w)) = (Returned (), w)" if "p \<notin> files w"
    using that by (simp add: cleanupFile_cases)
  have logged: "cleanupFile False q w =
      (Returned (), console_error ''Error cleaning up file:'' UnlinkError (issue (Unlink q) w))"
    if "q \<in> files w"
    using that by (simp add: cleanupFile_cases)
  have run: "fst (attempt env a w) = Returned ()"
    if "announce_ok env \<and> (tempDir \<in> files w \<or> mkdir_ok env) \<and> download env = Fetched
        \<and> upload env \<noteq> None \<and> edit_ok env"
    using that by (auto simp: attempt_def io_defs Let_def)
  from never quiet twice logged run show ?thesis by blast
qed

theorem C9_witness:
  "''temp/gone.png'' \<notin> files (world0\<lparr>files := {''temp/kept.png''}\<rparr>)
   \<and> cleanupFile True ''temp/gone.png''
        (snd (cleanupFile True ''temp/gone.png'' (world0\<lparr>files := {''temp/kept.png''}\<rparr>)))
       = (Returned (), world0\<lparr>files := {''temp/kept.png''}\<rparr>)
   \<and> ''temp/kept.png'' \<in> files (world0\<lparr>files := {''temp/kept.png''}\<rparr>)
   \<and> cleanupFile False ''temp/kept.png'' (world0\<lparr>files := {''temp/kept.png''}\<rparr>)
       = (Returned (), \<lparr>posted = [], files = {''temp/kept.png''},
                   logs = [(''Error cleaning up file:'', UnlinkError)],
                   trace = [Unlink ''temp/kept.png'']\<rparr>)
   \<and> fst (attempt unlink_fails cat_png (world0\<lparr>files := {''temp/kept.png''}\<rparr>)) = Returned ()"
  using C9_cleanup_never_raises [of True "''temp/gone.png''"
      "world0\<lparr>files := {''temp/kept.png''}\<rparr>" True "''temp/kept.png''" unlink_fails cat_png]
  by (simp add: scenario_defs issue_def console_error_def)

text \<open>
  C2 (the code departs from the claim): the staging file is claimed to be deleted on
  every exit path of a run. \<open>cleanupFile\<close> is called only as the last step of the \<open>try\<close>
  block; the \<open>catch\<close> block does not call it. In the specification's scenario B (one
  attachment \<open>cat.png\<close>, the download goes through, the hosting API fails) the handler
  posts the failure notice and returns with the staging file still there.
\<close>

theorem C2_staging_file_left_after_upload_failure:
  "messageCreate cfg0 (\<lambda>_. upload_fails) (from_human [cat_png]) world0
     = (Returned (),
        \<lparr>posted = [pending_text, failure_text],
         files = {''temp/temp_1700000000000_cat.png'', ''./temp''},
         logs = [(''Error uploading to Gyazo:'', UploadError),
                 (''Error processing image:'', UploadError)],
         trace = [Reply pending_text, Mkdir ''./temp'',
                  Download ''https://cdn.example/cat.png'' ''temp/temp_1700000000000_cat.png'',
                  Upload ''temp/temp_1700000000000_cat.png'',
                  Reply failure_text]\<rparr>)"
  by (simp add: scenario_defs eval_defs)

section \<open>Claims about the filter and the classification\<close>

text \<open>
  C3: an event whose author is automated, or whose conversation differs from a configured
  target conversation, or that has no attachment, leaves the handler at once: it returns
  normally with the world as it was, so nothing is requested and no reply is posted.
\<close>

theorem C3_filtered_event_does_nothing:
  assumes "author_bot msg
           \<or> (channelId cfg \<noteq> [] \<and> channel_id msg \<noteq> channelId cfg)
           \<or> attachments msg = []"
  shows "messageCreate cfg env msg w = (Returned (), w)"
  using assms by (auto simp: messageCreate_def)

theorem C3_witness:
  "messageCreate cfg0 (\<lambda>_. all_ok)
      \<lparr>author_bot = True, channel_id = ''general'', attachments = [cat_png]\<rparr> world0
     = (Returned (), world0)
   \<and> messageCreate (cfg0\<lparr>channelId := ''general''\<rparr>) (\<lambda>_. all_ok)
      \<lparr>author_bot = False, channel_id = ''random'', attachments = [cat_png]\<rparr> world0
     = (Returned (), world0)
   \<and> messageCreate cfg0 (\<lambda>_. all_ok) (from_human []) world0 = (Returned (), world0)"
  using
    C3_filtered_event_does_nothing [of
      "\<lparr>author_bot = True, channel_id = ''general'', attachments = [cat_png]\<rparr>"
      cfg0 "\<lambda>_. all_ok" world0]
    C3_filtered_event_does_nothing [of
      "\<lparr>author_bot = False, channel_id = ''random'', attachments = [cat_png]\<rparr>"
      "cfg0\<lparr>channelId := ''general''\<rparr>" "\<lambda>_. all_ok" world0]
    C3_filtered_event_does_nothing [of "from_human []" cfg0 "\<lambda>_. all_ok" world0]
  by (simp add: cfg0_def from_human_def)

text \<open>
  C4: in the turn of an attachment, processing is attempted (the turn opens with the
  request for the pending-status reply) if and only if the attachment's name, compared
  without regard to case, ends with one of \<open>.jpg\<close>, \<open>.jpeg\<close>, \<open>.png\<close>, \<open>.gif\<close>, \<open>.webp\<close>,
  \<open>.bmp\<close>. For a name with any other suffix the turn returns normally with the world as
  it was: no reply, no request, no file, no log.
\<close>

theorem C4_processed_iff_image_suffix:
  "((\<exists>rest. trace (snd (loop_body env a w)) = trace w @ Reply pending_text # rest)
      \<longleftrightarrow> (\<exists>ext \<in> set [''.jpg'', ''.jpeg'', ''.png'', ''.gif'', ''.webp'', ''.bmp''].
             ends_with_ci (name a) ext))
   \<and> ((\<forall>ext \<in> set [''.jpg'', ''.jpeg'', ''.png'', ''.gif'', ''.webp'', ''.bmp''].
          \<not> ends_with_ci (name a) ext)
        \<longrightarrow> loop_body env a w = (Returned (), w))"
proof (cases "isImage a")
  case True
  from loop_body_announces [OF True, of env w] True show ?thesis
    unfolding isImage_iff imageExtensions_def by blast
next
  case False
  then have skip: "loop_body env a w = (Returned (), w)"
    by (simp add: loop_body_def)
  from False have none:
    "\<not> (\<exists>ext \<in> set [''.jpg'', ''.jpeg'', ''.png'', ''.gif'', ''.webp'', ''.bmp''].
           ends_with_ci (name a) ext)"
    unfolding isImage_iff imageExtensions_def .
  have "\<not> (\<exists>rest. trace (snd (loop_body env a w)) = trace w @ Reply pending_text # rest)"
    by (simp add: skip)
  with none skip show ?thesis by blast
qed

theorem C4_witness:
  "\<not> isImage notes_txt
   \<and> loop_body all_ok notes_txt world0 = (Returned (), world0)
   \<and> isImage dog_jpg
   \<and> (\<exists>rest. trace (snd (loop_body all_ok dog_jpg world0)) = trace world0 @ Reply pending_text # rest)"
proof -
  have not_img: "\<not> isImage notes_txt"
    by (simp add: scenario_defs isImage_def imageExtensions_def endsWith_def toLowerCase_def
        lower_char_def)
  have is_img: "isImage dog_jpg"
    by (simp add: scenario_defs isImage_def imageExtensions_def endsWith_def toLowerCase_def
        lower_char_def)
  from not_img have "\<forall>ext \<in> set [''.jpg'', ''.jpeg'', ''.png'', ''.gif'', ''.webp'', ''.bmp''].
      \<not> ends_with_ci (name notes_txt) ext"
    unfolding isImage_iff imageExtensions_def by blast
  with C4_processed_iff_image_suffix [of all_ok notes_txt world0]
  have skip: "loop_body all_ok notes_txt world0 = (Returned (), world0)" by blast
  from is_img have "\<exists>ext \<in> set [''.jpg'', ''.jpeg'', ''.png'', ''.gif'', ''.webp'', ''.bmp''].
      ends_with_ci (name dog_jpg) ext"
    unfolding isImage_iff imageExtensions_def .
  with C4_processed_iff_image_suffix [of all_ok dog_jpg world0]
  have "\<exists>rest. trace (snd (loop_body all_ok dog_jpg world0)) = trace world0 @ Reply pending_text # rest"
    by blast
  with not_img is_img skip show ?thesis by blast
qed

section \<open>Claims about the run of one attachment\<close>

text \<open>
  C6 as stated: whenever transfer, upload and resolution of a run go through, the pending
  reply ends up holding the resolved URL as a code block and no further reply is posted.
  This fails when the platform rejects the edit: the rejection is caught like any other
  error of the \<open>try\<close> block, the pending reply keeps its text, and the failure notice is
  posted as a second reply.
\<close>

theorem C6_counterexample:
  "isImage cat_png
   \<and> download edit_rejected = Fetched
   \<and> upload edit_rejected = Some xyz_response
   \<and> posted (snd (loop_body edit_rejected cat_png world0)) = [pending_text, failure_text]"
  by (simp add: scenario_defs eval_defs)

text \<open>
  C6 amended: for every run of a qualifying attachment whose pending reply is posted,
  whose staging directory is there or can be made, whose transfer and upload go through
  and whose edit the platform accepts, the run returns normally, the pending reply is the
  only message the run adds and its final content is the resolved direct URL wrapped as a
  code block, and the requests of the run are the pending reply, the directory creation
  when needed, the download, the upload, the edit of the pending reply and the deletion
  of the staging file: no other reply.
\<close>

theorem C6_success_edits_pending_reply:
  assumes "isImage a" and "announce_ok env" and "tempDir \<in> files w \<or> mkdir_ok env"
    and "download env = Fetched" and "upload env = Some r" and "edit_ok env"
  shows "fst (loop_body env a w) = Returned ()
    \<and> posted (snd (loop_body env a w)) = posted w @ [code_block (getDirectImageUrl r)]
    \<and> trace (snd (loop_body env a w)) =
        trace w @ [Reply pending_text]
          @ (if tempDir \<in> files w then [] else [Mkdir tempDir])
          @ [Download (att_url a) (tempFilename env a), Upload (tempFilename env a),
             Edit (length (posted w)) (code_block (getDirectImageUrl r)),
             Unlink (tempFilename env a)]"
  using assms by (auto simp: loop_body_def attempt_def io_defs Let_def)

theorem C6_witness:
  "isImage cat_png \<and> announce_ok all_ok \<and> mkdir_ok all_ok \<and> download all_ok = Fetched
   \<and> upload all_ok = Some xyz_response \<and> edit_ok all_ok
   \<and> fst (loop_body all_ok cat_png world0) = Returned ()
   \<and> posted (snd (loop_body all_ok cat_png world0)) = [''```https://i.gyazo.com/xyz.png```'']"
proof -
  have img: "isImage cat_png"
    by (simp add: scenario_defs isImage_def imageExtensions_def endsWith_def toLowerCase_def
        lower_char_def)
  have env: "announce_ok all_ok" "tempDir \<in> files world0 \<or> mkdir_ok all_ok"
    "download all_ok = Fetched" "upload all_ok = Some xyz_response" "edit_ok all_ok"
    by (simp_all add: all_ok_def)
  have "code_block (getDirectImageUrl xyz_response) = ''```https://i.gyazo.com/xyz.png```''"
    by (simp add: code_block_def xyz_response_def getDirectImageUrl_def pop_def js_or_def
        falsy_def)
  with C6_success_edits_pending_reply [OF img env] img env(1,3,4,5)
  show ?thesis by (simp add: world0_def all_ok_def)
qed

text \<open>
  C7 as stated: whenever a run fails at the transfer or at the upload, the fixed failure
  notice is posted as a new message. This fails in two ways. When the platform rejects the
  notice (here after a failed download), no notice is posted and the only message of the
  run is the pending reply. And when the response stream of the download is cut in the
  middle of the body, the promise of \<open>downloadImage\<close> never settles: the \<open>catch\<close> block is
  never entered, no notice is requested at all and the pending reply stays as the run's
  last word.
\<close>

theorem C7_counterexample:
  "isImage cat_png
   \<and> download (notice_rejected_after_failed_fetch 0) = FetchFailed
   \<and> loop_body (notice_rejected_after_failed_fetch 0) cat_png world0
       = (Threw ReplyError,
          \<lparr>posted = [pending_text], files = {''./temp''},
           logs = [(''Error processing image:'', TransferError)],
           trace = [Reply pending_text, Mkdir ''./temp'',
                    Download ''https://cdn.example/cat.png'' ''temp/temp_1700000000000_cat.png'',
                    Reply failure_text]\<rparr>)
   \<and> download (first_download_stalls 0) = Stalled
   \<and> loop_body (first_download_stalls 0) cat_png world0
       = (NeverSettles,
          \<lparr>posted = [pending_text],
           files = {''temp/temp_1700000000000_cat.png'', ''./temp''},
           logs = [],
           trace = [Reply pending_text, Mkdir ''./temp'',
                    Download ''https://cdn.example/cat.png''
                      ''temp/temp_1700000000000_cat.png'']\<rparr>)"
  by (simp add: scenario_defs eval_defs)

text \<open>
  C7 amended: for every run of a qualifying attachment that has posted its pending reply
  and then fails at the transfer or at the upload with an error raised to the handler
  (the download or the upload rejects), the requests of the run are the pending reply,
  the directory creation when needed, the download, the upload when the download went
  through, and last the fixed failure notice as a new reply: no edit is requested. The
  pending reply keeps its content, and the notice is posted, as a separate message after
  it, exactly when the platform accepts it; the run then returns normally, and otherwise
  the rejection of the notice leaves the run. Nothing is said of a download whose promise
  never settles.
\<close>

theorem C7_failure_notice_is_new_reply:
  assumes "isImage a" and "announce_ok env" and "tempDir \<in> files w \<or> mkdir_ok env"
    and "download env \<noteq> Stalled"
    and "download env \<noteq> Fetched \<or> upload env = None"
  shows "trace (snd (loop_body env a w)) =
        trace w @ [Reply pending_text]
          @ (if tempDir \<in> files w then [] else [Mkdir tempDir])
          @ [Download (att_url a) (tempFilename env a)]
          @ (if download env = Fetched then [Upload (tempFilename env a)] else [])
          @ [Reply failure_text]
    \<and> posted (snd (loop_body env a w)) =
        posted w @ [pending_text] @ (if notice_ok env then [failure_text] else [])
    \<and> fst (loop_body env a w) = (if notice_ok env then Returned () else Threw ReplyError)"
  using assms
  by (cases "download env")
    (auto simp: loop_body_def attempt_def on_error_def io_defs Let_def split: option.split)

theorem C7_witness:
  "isImage cat_png \<and> announce_ok upload_fails \<and> mkdir_ok upload_fails
   \<and> download upload_fails = Fetched \<and> upload upload_fails = None \<and> notice_ok upload_fails
   \<and> fst (loop_body upload_fails cat_png world0) = Returned ()
   \<and> posted (snd (loop_body upload_fails cat_png world0)) = [pending_text, failure_text]
   \<and> trace (snd (loop_body upload_fails cat_png world0)) =
       [Reply pending_text, Mkdir ''./temp'',
        Download ''https://cdn.example/cat.png'' ''temp/temp_1700000000000_cat.png'',
        Upload ''temp/temp_1700000000000_cat.png'', Reply failure_text]"
proof -
  have img: "isImage cat_png"
    by (simp add: scenario_defs isImage_def imageExtensions_def endsWith_def toLowerCase_def
        lower_char_def)
  have env: "announce_ok upload_fails" "tempDir \<in> files world0 \<or> mkdir_ok upload_fails"
    "download upload_fails \<noteq> Stalled"
    "download upload_fails \<noteq> Fetched \<or> upload upload_fails = None"
    by (simp_all add: upload_fails_def all_ok_def)
  have staged: "tempFilename upload_fails cat_png = ''temp/temp_1700000000000_cat.png''"
    by (simp add: scenario_defs tempFilename_def path_join_def tempDir_def decimal.simps)
  from C7_failure_notice_is_new_reply [OF img env] img env(1) staged
  show ?thesis by (simp add: scenario_defs tempDir_def)
qed

section \<open>Claims about the loop over the attachments\<close>

text \<open>
  C8 as stated: an error raised while one attachment is processed never keeps the
  remaining attachments of the event from being processed. This fails in two ways. When
  the failure notice itself is rejected, the \<open>await\<close> in the \<open>catch\<close> block is not
  guarded, the rejection leaves the loop and the handler, and the second image of the
  event is never announced, downloaded or uploaded. And when the response stream of the
  first download is cut in the middle of the body, the handler waits for ever on a
  promise that never settles and never reaches the second image either, although every
  reply would have been accepted.
\<close>

theorem C8_counterexample:
  "isImage cat_png \<and> isImage dog_jpg
   \<and> messageCreate cfg0 notice_rejected_after_failed_fetch (from_human [cat_png, dog_jpg]) world0
       = (Threw ReplyError,
          \<lparr>posted = [pending_text], files = {''./temp''},
           logs = [(''Error processing image:'', TransferError)],
           trace = [Reply pending_text, Mkdir ''./temp'',
                    Download ''https://cdn.example/cat.png'' ''temp/temp_1700000000000_cat.png'',
                    Reply failure_text]\<rparr>)
   \<and> messageCreate cfg0 first_download_stalls (from_human [cat_png, dog_jpg]) world0
       = (NeverSettles,
          \<lparr>posted = [pending_text],
           files = {''temp/temp_1700000000000_cat.png'', ''./temp''},
           logs = [],
           trace = [Reply pending_text, Mkdir ''./temp'',
                    Download ''https://cdn.example/cat.png''
                      ''temp/temp_1700000000000_cat.png'']\<rparr>)"
  by (simp add: scenario_defs eval_defs)

text \<open>
  C8 amended: for an event that passes the filter, if every step awaited in its runs
  settles (no download is left with a promise that never settles) and every failure
  notice the handler comes to post is accepted, then whatever is raised in the runs
  (by the pending reply, the directory creation, the transfer, the upload, the edit or
  the deletion), the handler returns normally and every qualifying attachment of the
  event gets its run: the number of pending-status replies requested grows by the number
  of qualifying attachments.
\<close>

theorem C8_errors_do_not_stop_the_loop:
  assumes "\<not> author_bot msg" and "channelId cfg = [] \<or> channel_id msg = channelId cfg"
    and "\<forall>i < length (attachments msg). notice_ok (env i) \<and> download (env i) \<noteq> Stalled"
  shows "fst (messageCreate cfg env msg w) = Returned ()
    \<and> announcements (snd (messageCreate cfg env msg w))
         = announcements w + length (filter isImage (attachments msg))"
proof (cases "attachments msg = []")
  case True
  with assms show ?thesis by (simp add: messageCreate_def)
next
  case False
  from assms(3) have "\<forall>i < length (attachments msg).
      notice_ok (env (0 + i)) \<and> download (env (0 + i)) \<noteq> Stalled" by simp
  from process_attachments_all [OF this, of w] assms(1,2) False
  show ?thesis by (auto simp: messageCreate_def)
qed

theorem C8_witness:
  "upload (first_upload_fails 0) = None
   \<and> fst (loop_body (first_upload_fails 0) cat_png world0) = Returned ()
   \<and> posted (snd (loop_body (first_upload_fails 0) cat_png world0)) = [pending_text, failure_text]
   \<and> fst (messageCreate cfg0 first_upload_fails (from_human [cat_png, notes_txt, dog_jpg]) world0)
       = Returned ()
   \<and> announcements
       (snd (messageCreate cfg0 first_upload_fails (from_human [cat_png, notes_txt, dog_jpg]) world0))
       = 2"
proof -
  have h1: "\<not> author_bot (from_human [cat_png, notes_txt, dog_jpg])"
    by (simp add: from_human_def)
  have h2: "channelId cfg0 = [] \<or> channel_id (from_human [cat_png, notes_txt, dog_jpg]) = channelId cfg0"
    by (simp add: cfg0_def)
  have h3: "\<forall>i < length (attachments (from_human [cat_png, notes_txt, dog_jpg])).
      notice_ok (first_upload_fails i) \<and> download (first_upload_fails i) \<noteq> Stalled"
    by (simp add: first_upload_fails_def upload_fails_def all_ok_def)
  have n: "length (filter isImage (attachments (from_human [cat_png, notes_txt, dog_jpg]))) = 2"
    by (simp add: scenario_defs isImage_def imageExtensions_def endsWith_def toLowerCase_def
        lower_char_def)
  have a0: "announcements world0 = 0"
    by (simp add: announcements_def world0_def)
  have u: "upload (first_upload_fails 0) = None"
    by (simp add: first_upload_fails_def upload_fails_def all_ok_def)
  have first: "fst (loop_body (first_upload_fails 0) cat_png world0) = Returned ()
      \<and> posted (snd (loop_body (first_upload_fails 0) cat_png world0)) = [pending_text, failure_text]"
    by (simp add: scenario_defs eval_defs)
  from C8_errors_do_not_stop_the_loop [OF h1 h2 h3, of world0] n a0 u first
  show ?thesis by simp
qed

end
